theory Spec2Isabelle
  imports Main
begin

section \<open>Python values\<close>

text \<open>
  The program of \<^verbatim>\<open>github_roaster.py\<close> handles JSON payloads and plain Python
  dictionaries. A value is one of the shapes a decoded JSON document can take (floating
  point numbers are left out). A dictionary is the list of its items; looking a key up
  takes the first item with that key.
\<close>

datatype pyval =
    PNone
  | PBool bool
  | PInt int
  | PStr string
  | PList "pyval list"
  | PDict "(string \<times> pyval) list"

type_synonym py_dict = "(string \<times> pyval) list"

datatype py_error =
    KeyError string
  | GenerationError

text \<open>Truth value testing: \<^verbatim>\<open>None\<close>, \<^verbatim>\<open>False\<close>, zero and empty containers are false.\<close>

fun truthy :: "pyval \<Rightarrow> bool" where
  "truthy PNone = False"
| "truthy (PBool b) = b"
| "truthy (PInt i) = (i \<noteq> 0)"
| "truthy (PStr s) = (s \<noteq> [])"
| "truthy (PList xs) = (xs \<noteq> [])"
| "truthy (PDict kvs) = (kvs \<noteq> [])"

text \<open>\<^verbatim>\<open>a or b\<close>\<close>

definition py_or :: "pyval \<Rightarrow> pyval \<Rightarrow> pyval" where
  "py_or a b = (if truthy a then a else b)"

text \<open>\<^verbatim>\<open>d.get(k)\<close>: the value, or \<^verbatim>\<open>None\<close> when the key is missing.\<close>

definition dict_get :: "py_dict \<Rightarrow> string \<Rightarrow> pyval" where
  "dict_get d k = (case map_of d k of None \<Rightarrow> PNone | Some v \<Rightarrow> v)"

text \<open>
  \<^verbatim>\<open>d.get(k, default)\<close>: the default only when the key is missing; a key that is
  present with the value \<^verbatim>\<open>None\<close> yields \<^verbatim>\<open>None\<close>.
\<close>

definition dict_get_default :: "py_dict \<Rightarrow> string \<Rightarrow> pyval \<Rightarrow> pyval" where
  "dict_get_default d k dflt = (case map_of d k of None \<Rightarrow> dflt | Some v \<Rightarrow> v)"

text \<open>\<^verbatim>\<open>d[k]\<close>: raises \<^verbatim>\<open>KeyError\<close> when the key is missing.\<close>

definition dict_item :: "py_dict \<Rightarrow> string \<Rightarrow> py_error + pyval" where
  "dict_item d k = (case map_of d k of None \<Rightarrow> Inl (KeyError k) | Some v \<Rightarrow> Inr v)"

subsection \<open>Text of a value\<close>

definition digit_char :: "nat \<Rightarrow> char" where
  "digit_char d = char_of (48 + d)"

fun show_nat :: "nat \<Rightarrow> string" where
  "show_nat n = (if n < 10 then [digit_char n] else show_nat (n div 10) @ [digit_char (n mod 10)])"

declare show_nat.simps [simp del]

definition show_int :: "int \<Rightarrow> string" where
  "show_int i = (if i < 0 then CHR ''-'' # show_nat (nat (- i)) else show_nat (nat i))"

text \<open>
  \<^verbatim>\<open>str(v)\<close>, as an f-string applies it to an interpolated value. The text of a list or
  of a dictionary is built from the \<^verbatim>\<open>repr\<close> of its elements, whose quoting rules are
  the interpreter's: it is the parameter \<open>repr\<close>.
\<close>

fun py_str :: "(pyval \<Rightarrow> string) \<Rightarrow> pyval \<Rightarrow> string" where
  "py_str repr PNone = ''None''"
| "py_str repr (PBool b) = (if b then ''True'' else ''False'')"
| "py_str repr (PInt i) = show_int i"
| "py_str repr (PStr s) = s"
| "py_str repr (PList xs) = repr (PList xs)"
| "py_str repr (PDict kvs) = repr (PDict kvs)"

text \<open>\<^verbatim>\<open>sep.join(xs)\<close>\<close>

fun py_join :: "string \<Rightarrow> string list \<Rightarrow> string" where
  "py_join sep [] = []"
| "py_join sep [x] = x"
| "py_join sep (x # y # ys) = x @ sep @ py_join sep (y # ys)"

section \<open>The environment of a run\<close>

text \<open>
  The lookup service answers a \<^verbatim>\<open>GET\<close> with a status code and a decoded JSON body: an
  object for the profile address, an array of objects for the repositories address. A
  request that is not answered in this way (a timeout, a body that is not JSON, a body of
  another shape), on which \<^verbatim>\<open>requests.get\<close>, \<^verbatim>\<open>response.json()\<close> or \<^verbatim>\<open>data.get\<close>
  raises, is outside the model: every statement below is about runs whose two lookups
  are answered.
  The generation capability either returns text or raises. \<open>py_repr\<close> is the
  interpreter's \<^verbatim>\<open>repr\<close>, \<open>today\<close> the text of
  \<^verbatim>\<open>datetime.now().strftime("%Y-%m-%d")\<close>, \<open>user_task_first\<close> the scheduler's
  choice of which of the two start methods runs first, and \<open>flow_id\<close> the identifier
  the flow library gives to a run.
\<close>

record 'b response =
  status_code :: int
  json_body :: 'b

datatype task_name = AnalysisTask | RoastTask

record gen_request =
  req_task :: task_name
  req_role :: string
  req_inputs :: py_dict
  req_context :: "string list"

record env =
  users_api :: "string \<Rightarrow> py_dict response"
  repos_api :: "string \<Rightarrow> py_dict list response"
  generate :: "gen_request \<Rightarrow> py_error + string"
  py_repr :: "pyval \<Rightarrow> string"
  today :: string
  user_task_first :: bool
  flow_id :: string

section \<open>The fetchers\<close>

text \<open>The dictionary literal returned by \<^verbatim>\<open>get_github_user_info\<close>.\<close>

definition user_info_dict :: "py_dict \<Rightarrow> py_dict" where
  "user_info_dict data =
     [(''username'', dict_get data ''login''),
      (''name'', py_or (dict_get data ''name'') (PStr ''Not provided'')),
      (''bio'', py_or (dict_get data ''bio'') (PStr ''No bio provided'')),
      (''followers'', dict_get_default data ''followers'' (PInt 0)),
      (''following'', dict_get_default data ''following'' (PInt 0)),
      (''public_repos'', dict_get_default data ''public_repos'' (PInt 0)),
      (''location'', py_or (dict_get data ''location'') (PStr ''Not provided'')),
      (''company'', py_or (dict_get data ''company'') (PStr ''Not provided'')),
      (''blog'', py_or (dict_get data ''blog'') (PStr ''Not provided'')),
      (''created_at'', dict_get data ''created_at''),
      (''avatar_url'', dict_get data ''avatar_url'')]"

text \<open>
  A fetcher takes the addresses requested so far and returns them with its own request
  added: the request is its only effect.
\<close>

definition get_github_user_info ::
  "env \<Rightarrow> string \<Rightarrow> string list \<Rightarrow> py_dict option \<times> string list" where
  "get_github_user_info e username reqs =
     (let url = ''https://api.github.com/users/'' @ username;
          response = users_api e url;
          reqs' = reqs @ [url]
      in if status_code response \<noteq> 200 then (None, reqs')
         else (Some (user_info_dict (json_body response)), reqs'))"

text \<open>One element of the list comprehension of \<^verbatim>\<open>get_github_repos\<close>.\<close>

definition repo_dict :: "py_dict \<Rightarrow> py_dict" where
  "repo_dict repo =
     [(''name'', dict_get repo ''name''),
      (''description'', py_or (dict_get repo ''description'') (PStr ''No description provided'')),
      (''language'', py_or (dict_get repo ''language'') (PStr ''Not specified'')),
      (''stars'', dict_get_default repo ''stargazers_count'' (PInt 0)),
      (''forks'', dict_get_default repo ''forks_count'' (PInt 0)),
      (''issues'', dict_get_default repo ''open_issues_count'' (PInt 0)),
      (''created_at'', dict_get repo ''created_at''),
      (''updated_at'', dict_get repo ''updated_at''),
      (''topics'', dict_get_default repo ''topics'' (PList [])),
      (''is_fork'', dict_get_default repo ''fork'' (PBool False))]"

definition get_github_repos ::
  "env \<Rightarrow> string \<Rightarrow> string list \<Rightarrow> py_dict list option \<times> string list" where
  "get_github_repos e username reqs =
     (let url = ''https://api.github.com/users/'' @ username @ ''/repos?per_page=100&sort=updated'';
          response = repos_api e url;
          reqs' = reqs @ [url]
      in if status_code response \<noteq> 200 then (None, reqs')
         else (Some (map repo_dict (json_body response)), reqs'))"

section \<open>The flow\<close>

text \<open>
  The state of one run: the dictionary \<^verbatim>\<open>self.state\<close>, the addresses requested from
  the lookup service so far, and the requests made to the generation capability so far.
\<close>

record flow =
  state :: "string \<rightharpoonup> pyval"
  requests :: "string list"
  gen_log :: "gen_request list"

text \<open>\<^verbatim>\<open>self.state.get(k)\<close> and \<^verbatim>\<open>self.state[k]\<close>\<close>

definition state_get :: "flow \<Rightarrow> string \<Rightarrow> pyval" where
  "state_get fl k = (case state fl k of None \<Rightarrow> PNone | Some v \<Rightarrow> v)"

definition state_item :: "flow \<Rightarrow> string \<Rightarrow> py_error + pyval" where
  "state_item fl k = (case state fl k of None \<Rightarrow> Inl (KeyError k) | Some v \<Rightarrow> Inr v)"

text \<open>An exception raised by the first computation ends the second.\<close>

definition bind_result :: "py_error + 'a \<Rightarrow> ('a \<Rightarrow> py_error + 'b) \<Rightarrow> py_error + 'b" where
  "bind_result m f = (case m of Inl ex \<Rightarrow> Inl ex | Inr v \<Rightarrow> f v)"

definition start_user_info :: "env \<Rightarrow> flow \<Rightarrow> (py_error + pyval) \<times> flow" where
  "start_user_info e fl =
     (case state_item fl ''username'' of
        Inl ex \<Rightarrow> (Inl ex, fl)
      | Inr username \<Rightarrow>
          (case get_github_user_info e (py_str (py_repr e) username) (requests fl) of
             (user_info, reqs') \<Rightarrow>
               (let fl' = fl\<lparr>requests := reqs'\<rparr>
                in case user_info of
                     None \<Rightarrow> (Inr (PDict [(''error'', PStr ''Failed to fetch user data'')]), fl')
                   | Some ui \<Rightarrow>
                       if ui = []
                       then (Inr (PDict [(''error'', PStr ''Failed to fetch user data'')]), fl')
                       else (Inr (PDict ui), fl'\<lparr>state := (state fl')(''user_info'' \<mapsto> PDict ui)\<rparr>))))"

text \<open>The f-string of \<^verbatim>\<open>start_repo_info\<close>, for one repository. The issue count is not shown.\<close>

definition render_repo :: "(pyval \<Rightarrow> string) \<Rightarrow> py_dict \<Rightarrow> py_error + string" where
  "render_repo repr repo =
     bind_result (dict_item repo ''name'') (\<lambda>name.
     bind_result (dict_item repo ''description'') (\<lambda>description.
     bind_result (dict_item repo ''language'') (\<lambda>language.
     bind_result (dict_item repo ''stars'') (\<lambda>stars.
     bind_result (dict_item repo ''forks'') (\<lambda>forks.
     bind_result (dict_item repo ''created_at'') (\<lambda>created_at.
     bind_result (dict_item repo ''updated_at'') (\<lambda>updated_at.
     bind_result (dict_item repo ''topics'') (\<lambda>topics.
     bind_result (dict_item repo ''is_fork'') (\<lambda>is_fork.
       Inr (''\<newline>                - Name: '' @ py_str repr name
          @ ''\<newline>                - Description: '' @ py_str repr description
          @ ''\<newline>                - Language: '' @ py_str repr language
          @ ''\<newline>                - Stars: '' @ py_str repr stars
          @ ''\<newline>                - Forks: '' @ py_str repr forks
          @ ''\<newline>                - Created At: '' @ py_str repr created_at
          @ ''\<newline>                - Updated At: '' @ py_str repr updated_at
          @ ''\<newline>                - Topics: '' @ py_str repr topics
          @ ''\<newline>                - Is Fork: '' @ py_str repr is_fork
          @ ''\<newline>                ''))))))))))"

fun render_repos :: "(pyval \<Rightarrow> string) \<Rightarrow> py_dict list \<Rightarrow> py_error + string list" where
  "render_repos repr [] = Inr []"
| "render_repos repr (repo # repos) =
     bind_result (render_repo repr repo) (\<lambda>t.
     bind_result (render_repos repr repos) (\<lambda>ts. Inr (t # ts)))"

text \<open>The text put together by \<^verbatim>\<open>"\n\n".join([...])\<close>.\<close>

definition repos_text :: "(pyval \<Rightarrow> string) \<Rightarrow> py_dict list \<Rightarrow> py_error + string" where
  "repos_text repr repos =
     bind_result (render_repos repr repos) (\<lambda>texts. Inr (py_join ''\<newline>\<newline>'' texts))"

definition start_repo_info :: "env \<Rightarrow> flow \<Rightarrow> (py_error + pyval) \<times> flow" where
  "start_repo_info e fl =
     (case state_item fl ''username'' of
        Inl ex \<Rightarrow> (Inl ex, fl)
      | Inr username \<Rightarrow>
          (case get_github_repos e (py_str (py_repr e) username) (requests fl) of
             (repos, reqs') \<Rightarrow>
               (let fl' = fl\<lparr>requests := reqs'\<rparr>
                in case repos of
                     None \<Rightarrow> (Inr (PDict [(''error'', PStr ''Failed to fetch repositories data'')]), fl')
                   | Some rs \<Rightarrow>
                       if rs = []
                       then (Inr (PDict [(''error'', PStr ''Failed to fetch repositories data'')]), fl')
                       else (case repos_text (py_repr e) rs of
                               Inl ex \<Rightarrow> (Inl ex, fl')
                             | Inr text \<Rightarrow>
                                 (Inr (PStr text),
                                  fl'\<lparr>state := (state fl')(''repos'' \<mapsto> PStr text)\<rparr>)))))"

subsection \<open>The pipeline\<close>

text \<open>
  The agent of each task and the fields its description template interpolates, as
  \<^verbatim>\<open>generate_roast\<close> declares them.
\<close>

fun task_role :: "task_name \<Rightarrow> string" where
  "task_role AnalysisTask = ''GitHub Data Analyst''"
| "task_role RoastTask = ''Tech Comedian''"

fun task_fields :: "task_name \<Rightarrow> string list" where
  "task_fields AnalysisTask = [''date'', ''username'', ''user_info'', ''repos'']"
| "task_fields RoastTask = [''date'', ''username'', ''user_info'']"

text \<open>
  Modelled from the spec: the run of the pipeline, \<^verbatim>\<open>Crew.kickoff\<close>, which belongs to
  the crewai library and not to the source. Section 4.3 of the specification: the steps
  run strictly in sequence, each is one call of the generation capability on the step's
  role, template and interpolated fields, a later step has the earlier outputs as its
  context, a failed call fails the run, and the artifact is the output of the last step.
\<close>

fun run_tasks ::
  "env \<Rightarrow> py_dict \<Rightarrow> task_name list \<Rightarrow> string list \<Rightarrow> gen_request list
     \<Rightarrow> (py_error + string list) \<times> gen_request list" where
  "run_tasks e inputs [] outs glog = (Inr outs, glog)"
| "run_tasks e inputs (t # ts) outs glog =
     (let req = \<lparr>req_task = t,
                 req_role = task_role t,
                 req_inputs = filter (\<lambda>kv. fst kv \<in> set (task_fields t)) inputs,
                 req_context = outs\<rparr>;
          glog' = glog @ [req]
      in case generate e req of
           Inl ex \<Rightarrow> (Inl ex, glog')
         | Inr out \<Rightarrow> run_tasks e inputs ts (outs @ [out]) glog')"

definition crew_kickoff ::
  "env \<Rightarrow> task_name list \<Rightarrow> py_dict \<Rightarrow> gen_request list
     \<Rightarrow> (py_error + string) \<times> gen_request list" where
  "crew_kickoff e tasks inputs glog =
     (case run_tasks e inputs tasks [] glog of
        (Inl ex, glog') \<Rightarrow> (Inl ex, glog')
      | (Inr outs, glog') \<Rightarrow> (Inr (case rev outs of [] \<Rightarrow> [] | out # _ \<Rightarrow> out), glog'))"

subsection \<open>The join task\<close>

definition generate_roast ::
  "env \<Rightarrow> flow \<Rightarrow> (py_error + (pyval \<times> string) option) \<times> flow" where
  "generate_roast e fl =
     (if \<not> truthy (state_get fl ''user_info'') \<or> \<not> truthy (state_get fl ''repos'')
      then (Inr None, fl)
      else
        (case bind_result (state_item fl ''username'') (\<lambda>username.
              bind_result (state_item fl ''repos'') (\<lambda>repos.
              bind_result (state_item fl ''user_info'') (\<lambda>user_info.
                Inr [(''username'', username), (''repos'', repos),
                     (''user_info'', user_info), (''date'', PStr (today e))]))) of
           Inl ex \<Rightarrow> (Inl ex, fl)
         | Inr inputs \<Rightarrow>
             (case crew_kickoff e [AnalysisTask, RoastTask] inputs (gen_log fl) of
                (roast, glog') \<Rightarrow>
                  (let fl' = fl\<lparr>gen_log := glog'\<rparr>
                   in case roast of
                        Inl ex \<Rightarrow> (Inl ex, fl')
                      | Inr text \<Rightarrow>
                          (case state_item fl' ''user_info'' of
                             Inl ex \<Rightarrow> (Inl ex, fl')
                           | Inr user_info \<Rightarrow> (Inr (Some (user_info, text)), fl'))))))"

subsection \<open>The run\<close>

text \<open>
  The two \<^verbatim>\<open>@start()\<close> methods of the source. Neither body suspends, so a schedule of
  the two is one of the two orders. The value a start method returns, the error
  dictionary included, is a return value like any other.
\<close>

definition run_start_tasks :: "env \<Rightarrow> flow \<Rightarrow> (py_error + pyval \<times> pyval) \<times> flow" where
  "run_start_tasks e fl0 =
     (if user_task_first e
      then (case start_user_info e fl0 of
              (Inl ex, fl1) \<Rightarrow> (Inl ex, fl1)
            | (Inr user_out, fl1) \<Rightarrow>
                (case start_repo_info e fl1 of
                   (Inl ex, fl2) \<Rightarrow> (Inl ex, fl2)
                 | (Inr repo_out, fl2) \<Rightarrow> (Inr (user_out, repo_out), fl2)))
      else (case start_repo_info e fl0 of
              (Inl ex, fl1) \<Rightarrow> (Inl ex, fl1)
            | (Inr repo_out, fl1) \<Rightarrow>
                (case start_user_info e fl1 of
                   (Inl ex, fl2) \<Rightarrow> (Inl ex, fl2)
                 | (Inr user_out, fl2) \<Rightarrow> (Inr (user_out, repo_out), fl2))))"

text \<open>
  Modelled from the spec: the orchestrator, \<^verbatim>\<open>Flow.kickoff\<close> of the crewai library,
  which is not part of the source. Section 4.2 of the specification: two start tasks
  without dependencies and one join task that runs once both have settled. Section 6:
  one blocking call whose result is the pair or a failure. The source fixes the rest.
  Its decorators give the graph: \<^verbatim>\<open>generate_roast\<close> listens on
  \<^verbatim>\<open>and_(start_user_info, start_repo_info)\<close>. And \<^verbatim>\<open>main\<close> takes the result of the run
  to be what \<^verbatim>\<open>generate_roast\<close> returned, \<^verbatim>\<open>None\<close> or the pair. After a lookup that
  found nothing, the start method has returned its error dictionary and has not written
  its key, and the guard of \<^verbatim>\<open>generate_roast\<close> returns \<^verbatim>\<open>None\<close> without doing anything
  else: the outcome that the failure policy of section 4.2 asks for.

  Two points are the library's alone. It puts a key \<^verbatim>\<open>id\<close> of its own into the state,
  to which the inputs are added. And what it does when a method raises is neither in the
  source nor modelled: \<open>Inl ex\<close> as the result of \<open>flow_kickoff\<close> records that a method
  of the flow raised \<open>ex\<close>, and says nothing about what the caller of
  \<^verbatim>\<open>Flow.kickoff\<close> then receives.
\<close>

definition flow_kickoff ::
  "env \<Rightarrow> py_dict \<Rightarrow> (py_error + (pyval \<times> string) option) \<times> flow" where
  "flow_kickoff e inputs =
     (case run_start_tasks e
             \<lparr>state = map_of (inputs @ [(''id'', PStr (flow_id e))]), requests = [], gen_log = []\<rparr> of
        (Inl ex, fl) \<Rightarrow> (Inl ex, fl)
      | (Inr _, fl) \<Rightarrow> generate_roast e fl)"

text \<open>
  What \<^verbatim>\<open>main\<close> does once the button is pressed, up to the unpacking of the result; the
  rendering of the page is not modelled. \<^verbatim>\<open>main\<close> has no handler around
  \<^verbatim>\<open>flow.kickoff\<close>; what it comes to when a method of the flow has raised depends on
  what the library hands back, and is left open as \<open>MethodRaised\<close>.
\<close>

datatype page =
    ShowError string
  | ShowRoast pyval string
  | MethodRaised py_error

definition main :: "env \<Rightarrow> string \<Rightarrow> page" where
  "main e username =
     (if username = [] then ShowError ''Please enter a GitHub username''
      else case fst (flow_kickoff e [(''username'', PStr username)]) of
             Inl ex \<Rightarrow> MethodRaised ex
           | Inr None \<Rightarrow> ShowError ''The username provided does not exist.''
           | Inr (Some (user_info, roast)) \<Rightarrow> ShowRoast user_info roast)"

section \<open>Example environments\<close>

text \<open>
  A lookup service that knows \<^verbatim>\<open>octocat\<close>, with one repository, and \<^verbatim>\<open>newcomer\<close>, with
  none, and answers 404 for every other address; a generation capability that always
  answers, and one whose second step fails; a profile as the lookup service sends it,
  with every field there and the five optional ones null or empty.
\<close>

definition example_users_api :: "string \<Rightarrow> py_dict response" where
  "example_users_api url =
     (if url = ''https://api.github.com/users/octocat''
      then \<lparr>status_code = 200,
            json_body = [(''login'', PStr ''octocat''), (''name'', PNone),
                         (''followers'', PInt 100), (''public_repos'', PInt 5)]\<rparr>
      else if url = ''https://api.github.com/users/newcomer''
      then \<lparr>status_code = 200, json_body = [(''login'', PStr ''newcomer'')]\<rparr>
      else \<lparr>status_code = 404, json_body = []\<rparr>)"

definition example_repos_api :: "string \<Rightarrow> py_dict list response" where
  "example_repos_api url =
     (if url = ''https://api.github.com/users/octocat/repos?per_page=100&sort=updated''
      then \<lparr>status_code = 200,
            json_body = [[(''name'', PStr ''Spoon-Knife''), (''description'', PNone),
                          (''fork'', PBool False)]]\<rparr>
      else if url = ''https://api.github.com/users/newcomer/repos?per_page=100&sort=updated''
      then \<lparr>status_code = 200, json_body = []\<rparr>
      else \<lparr>status_code = 404, json_body = []\<rparr>)"

definition example_generate :: "gen_request \<Rightarrow> py_error + string" where
  "example_generate req =
     (case req_task req of AnalysisTask \<Rightarrow> Inr ''insights'' | RoastTask \<Rightarrow> Inr ''roast'')"

definition failing_generate :: "gen_request \<Rightarrow> py_error + string" where
  "failing_generate req =
     (case req_task req of AnalysisTask \<Rightarrow> Inr ''insights'' | RoastTask \<Rightarrow> Inl GenerationError)"

definition example_env :: env where
  "example_env =
     \<lparr>users_api = example_users_api, repos_api = example_repos_api,
      generate = example_generate, py_repr = (\<lambda>v. ''[]''), today = ''2025-01-01'',
      user_task_first = True, flow_id = ''run-1''\<rparr>"

definition failing_env :: env where
  "failing_env = example_env\<lparr>generate := failing_generate\<rparr>"

definition sparse_profile :: py_dict where
  "sparse_profile =
     [(''login'', PStr ''hubot''), (''name'', PNone), (''bio'', PNone),
      (''followers'', PInt 7), (''following'', PInt 0), (''public_repos'', PInt 2),
      (''location'', PNone), (''company'', PNone), (''blog'', PStr []),
      (''created_at'', PStr ''2011-01-25T18:44:36Z''),
      (''avatar_url'', PStr ''https://avatars.githubusercontent.com/u/583231'')]"

definition sparse_env :: env where
  "sparse_env =
     example_env\<lparr>users_api := (\<lambda>url. \<lparr>status_code = 200, json_body = sparse_profile\<rparr>)\<rparr>"

section \<open>Auxiliary facts\<close>


lemma user_info_dict_nonempty: "user_info_dict d \<noteq> []"
  by (simp add: user_info_dict_def)

lemma render_repo_repo_dict: "\<exists>t. render_repo repr (repo_dict r) = Inr t \<and> t \<noteq> []"
  by (simp add: render_repo_def repo_dict_def dict_item_def bind_result_def)

lemma render_repos_repo_dict:
  "\<exists>ts. render_repos repr (map repo_dict rs) = Inr ts \<and> length ts = length rs \<and> (\<forall>t \<in> set ts. t \<noteq> [])"
proof (induction rs)
  case Nil
  show ?case by simp
next
  case (Cons r rs)
  obtain t where t: "render_repo repr (repo_dict r) = Inr t" "t \<noteq> []"
    using render_repo_repo_dict by blast
  from Cons obtain ts where ts: "render_repos repr (map repo_dict rs) = Inr ts"
    "length ts = length rs" "\<forall>t \<in> set ts. t \<noteq> []" by blast
  show ?case using t ts by (simp add: bind_result_def)
qed

lemma py_join_nonempty: "ts \<noteq> [] \<Longrightarrow> \<forall>t \<in> set ts. t \<noteq> [] \<Longrightarrow> py_join sep ts \<noteq> []"
  by (induction sep ts rule: py_join.induct) auto


lemma user_fetch_indep: "fst (get_github_user_info e u reqs) = fst (get_github_user_info e u r)"
  by (simp add: get_github_user_info_def Let_def)

lemma repos_fetch_indep: "fst (get_github_repos e u reqs) = fst (get_github_repos e u r)"
  by (simp add: get_github_repos_def Let_def)

lemma user_fetch_shape:
  "fst (get_github_user_info e u reqs) = None \<or>
   (\<exists>data. fst (get_github_user_info e u reqs) = Some (user_info_dict data))"
  by (auto simp add: get_github_user_info_def Let_def)

lemma repos_fetch_shape:
  "fst (get_github_repos e u reqs) = None \<or>
   (\<exists>body. fst (get_github_repos e u reqs) = Some (map repo_dict body))"
  by (auto simp add: get_github_repos_def Let_def)

lemma start_user_info_effect:
  assumes "state fl ''username'' = Some un"
  shows "\<exists>v fl'. start_user_info e fl = (Inr v, fl') \<and> gen_log fl' = gen_log fl \<and>
           state fl' = (case fst (get_github_user_info e (py_str (py_repr e) un) r) of
                          None \<Rightarrow> state fl
                        | Some ui \<Rightarrow> (state fl)(''user_info'' \<mapsto> PDict ui))"
proof -
  obtain res reqs' where g: "get_github_user_info e (py_str (py_repr e) un) (requests fl) = (res, reqs')"
    by (cases "get_github_user_info e (py_str (py_repr e) un) (requests fl)")
  have res: "fst (get_github_user_info e (py_str (py_repr e) un) r) = res"
    using g user_fetch_indep [of e "py_str (py_repr e) un" r "requests fl"] by simp
  have "res = None \<or> (\<exists>data. res = Some (user_info_dict data))"
    using user_fetch_shape [of e "py_str (py_repr e) un" "requests fl"] g by simp
  then show ?thesis
  proof
    assume "res = None"
    then show ?thesis using assms g res
      by (simp add: start_user_info_def state_item_def)
  next
    assume "\<exists>data. res = Some (user_info_dict data)"
    then obtain data where "res = Some (user_info_dict data)" ..
    then show ?thesis using assms g res
      by (simp add: start_user_info_def state_item_def user_info_dict_nonempty)
  qed
qed

lemma repos_text_repo_dict:
  "body \<noteq> [] \<Longrightarrow> \<exists>text. repos_text repr (map repo_dict body) = Inr text \<and> text \<noteq> []"
proof -
  assume nonempty: "body \<noteq> []"
  obtain ts where ts: "render_repos repr (map repo_dict body) = Inr ts"
    "length ts = length body" "\<forall>t \<in> set ts. t \<noteq> []"
    using render_repos_repo_dict by blast
  from nonempty ts have "ts \<noteq> []" by auto
  then have "py_join ''\<newline>\<newline>'' ts \<noteq> []" using ts(3) by (rule py_join_nonempty)
  then show ?thesis using ts(1) by (simp add: repos_text_def bind_result_def)
qed

lemma start_repo_info_effect:
  assumes "state fl ''username'' = Some un"
  shows "\<exists>v fl'. start_repo_info e fl = (Inr v, fl') \<and> gen_log fl' = gen_log fl \<and>
           (case fst (get_github_repos e (py_str (py_repr e) un) r) of
              None \<Rightarrow> state fl' = state fl
            | Some rs \<Rightarrow>
                if rs = [] then state fl' = state fl
                else (\<exists>text. repos_text (py_repr e) rs = Inr text \<and> text \<noteq> [] \<and>
                        state fl' = (state fl)(''repos'' \<mapsto> PStr text)))"
proof -
  obtain res reqs' where g: "get_github_repos e (py_str (py_repr e) un) (requests fl) = (res, reqs')"
    by (cases "get_github_repos e (py_str (py_repr e) un) (requests fl)")
  have res: "fst (get_github_repos e (py_str (py_repr e) un) r) = res"
    using g repos_fetch_indep [of e "py_str (py_repr e) un" r "requests fl"] by simp
  have "res = None \<or> (\<exists>body. res = Some (map repo_dict body))"
    using repos_fetch_shape [of e "py_str (py_repr e) un" "requests fl"] g by simp
  then show ?thesis
  proof
    assume "res = None"
    then show ?thesis using assms g res
      by (simp add: start_repo_info_def state_item_def)
  next
    assume "\<exists>body. res = Some (map repo_dict body)"
    then obtain body where body: "res = Some (map repo_dict body)" ..
    show ?thesis
    proof (cases "body = []")
      case True
      then show ?thesis using assms g res body
        by (simp add: start_repo_info_def state_item_def)
    next
      case False
      then obtain rt where "repos_text (py_repr e) (map repo_dict body) = Inr rt" "rt \<noteq> []"
        using repos_text_repo_dict by blast
      then show ?thesis using assms g res body False
        by (simp add: start_repo_info_def state_item_def)
    qed
  qed
qed

lemma run_start_tasks_effect:
  assumes "state fl0 ''username'' = Some un"
  shows "\<exists>outs fl2. run_start_tasks e fl0 = (Inr outs, fl2) \<and> gen_log fl2 = gen_log fl0 \<and>
           (\<forall>k. k \<noteq> ''user_info'' \<and> k \<noteq> ''repos'' \<longrightarrow> state fl2 k = state fl0 k) \<and>
           state fl2 ''user_info'' =
             (case fst (get_github_user_info e (py_str (py_repr e) un) r1) of
                None \<Rightarrow> state fl0 ''user_info'' | Some ui \<Rightarrow> Some (PDict ui)) \<and>
           (case fst (get_github_repos e (py_str (py_repr e) un) r2) of
              None \<Rightarrow> state fl2 ''repos'' = state fl0 ''repos''
            | Some rs \<Rightarrow>
                if rs = [] then state fl2 ''repos'' = state fl0 ''repos''
                else (\<exists>text. repos_text (py_repr e) rs = Inr text \<and> text \<noteq> [] \<and>
                        state fl2 ''repos'' = Some (PStr text)))"
proof (cases "user_task_first e")
  case True
  obtain v1 fl1 where s1: "start_user_info e fl0 = (Inr v1, fl1)" "gen_log fl1 = gen_log fl0"
    "state fl1 = (case fst (get_github_user_info e (py_str (py_repr e) un) r1) of
                    None \<Rightarrow> state fl0 | Some ui \<Rightarrow> (state fl0)(''user_info'' \<mapsto> PDict ui))"
    using start_user_info_effect [OF assms, of e r1] by blast
  have u1: "state fl1 ''username'' = Some un"
    using s1(3) assms by (simp split: option.splits)
  obtain v2 fl2 where s2: "start_repo_info e fl1 = (Inr v2, fl2)" "gen_log fl2 = gen_log fl1"
    "(case fst (get_github_repos e (py_str (py_repr e) un) r2) of
        None \<Rightarrow> state fl2 = state fl1
      | Some rs \<Rightarrow>
          if rs = [] then state fl2 = state fl1
          else (\<exists>text. repos_text (py_repr e) rs = Inr text \<and> text \<noteq> [] \<and>
                  state fl2 = (state fl1)(''repos'' \<mapsto> PStr text)))"
    using start_repo_info_effect [OF u1, of e r2] by blast
  have run: "run_start_tasks e fl0 = (Inr (v1, v2), fl2)"
    using True s1(1) s2(1) by (simp add: run_start_tasks_def)
  show ?thesis
    using run s1(2) s2(2) s1(3) s2(3)
    by (auto split: option.splits if_splits)
next
  case False
  obtain v1 fl1 where s1: "start_repo_info e fl0 = (Inr v1, fl1)" "gen_log fl1 = gen_log fl0"
    "(case fst (get_github_repos e (py_str (py_repr e) un) r2) of
        None \<Rightarrow> state fl1 = state fl0
      | Some rs \<Rightarrow>
          if rs = [] then state fl1 = state fl0
          else (\<exists>text. repos_text (py_repr e) rs = Inr text \<and> text \<noteq> [] \<and>
                  state fl1 = (state fl0)(''repos'' \<mapsto> PStr text)))"
    using start_repo_info_effect [OF assms, of e r2] by blast
  have u1: "state fl1 ''username'' = Some un"
    using s1(3) assms by (auto split: option.splits if_splits)
  obtain v2 fl2 where s2: "start_user_info e fl1 = (Inr v2, fl2)" "gen_log fl2 = gen_log fl1"
    "state fl2 = (case fst (get_github_user_info e (py_str (py_repr e) un) r1) of
                    None \<Rightarrow> state fl1 | Some ui \<Rightarrow> (state fl1)(''user_info'' \<mapsto> PDict ui))"
    using start_user_info_effect [OF u1, of e r1] by blast
  have run: "run_start_tasks e fl0 = (Inr (v2, v1), fl2)"
    using False s1(1) s2(1) by (simp add: run_start_tasks_def)
  show ?thesis
    using run s1(2) s2(2) s1(3) s2(3)
    by (auto split: option.splits if_splits)
qed

lemma generate_roast_guard:
  assumes "state fl ''user_info'' = None \<or> state fl ''repos'' = None"
  shows "generate_roast e fl = (Inr None, fl)"
  using assms by (auto simp add: generate_roast_def state_get_def)

lemma repos_fetch_Some:
  "fst (get_github_repos e u reqs) = Some rs \<Longrightarrow>
   rs = map repo_dict
          (json_body (repos_api e (''https://api.github.com/users/'' @ u @ ''/repos?per_page=100&sort=updated'')))"
  by (simp add: get_github_repos_def Let_def split: if_splits)

lemma user_fetch_Some:
  "fst (get_github_user_info e u reqs) = Some r \<Longrightarrow>
   r = user_info_dict (json_body (users_api e (''https://api.github.com/users/'' @ u)))"
  by (simp add: get_github_user_info_def Let_def split: if_splits)

lemma crew_kickoff_two:
  "crew_kickoff e [AnalysisTask, RoastTask] inputs glog =
     (let req1 = \<lparr>req_task = AnalysisTask, req_role = task_role AnalysisTask,
                  req_inputs = filter (\<lambda>kv. fst kv \<in> set (task_fields AnalysisTask)) inputs,
                  req_context = []\<rparr>
      in case generate e req1 of
           Inl ex \<Rightarrow> (Inl ex, glog @ [req1])
         | Inr out1 \<Rightarrow>
             (let req2 = \<lparr>req_task = RoastTask, req_role = task_role RoastTask,
                          req_inputs = filter (\<lambda>kv. fst kv \<in> set (task_fields RoastTask)) inputs,
                          req_context = [out1]\<rparr>
              in case generate e req2 of
                   Inl ex \<Rightarrow> (Inl ex, glog @ [req1, req2])
                 | Inr out2 \<Rightarrow> (Inr out2, glog @ [req1, req2])))"
  by (simp add: crew_kickoff_def Let_def split: sum.splits)

lemma generate_roast_outcome:
  "generate_roast e fl = (Inr None, fl) \<or>
   (state fl ''username'' = None \<and> generate_roast e fl = (Inl (KeyError ''username''), fl)) \<or>
   (\<exists>req1 ex. generate_roast e fl = (Inl ex, fl\<lparr>gen_log := gen_log fl @ [req1]\<rparr>) \<and>
      req_task req1 = AnalysisTask \<and> req_context req1 = [] \<and> generate e req1 = Inl ex) \<or>
   (\<exists>req1 req2 out1 ex.
      generate_roast e fl = (Inl ex, fl\<lparr>gen_log := gen_log fl @ [req1, req2]\<rparr>) \<and>
      req_task req1 = AnalysisTask \<and> req_context req1 = [] \<and> generate e req1 = Inr out1 \<and>
      req_task req2 = RoastTask \<and> req_context req2 = [out1] \<and> generate e req2 = Inl ex) \<or>
   (\<exists>req1 req2 out1 roast user_info.
      generate_roast e fl = (Inr (Some (user_info, roast)), fl\<lparr>gen_log := gen_log fl @ [req1, req2]\<rparr>) \<and>
      state fl ''user_info'' = Some user_info \<and>
      req_task req1 = AnalysisTask \<and> req_context req1 = [] \<and> generate e req1 = Inr out1 \<and>
      req_task req2 = RoastTask \<and> req_context req2 = [out1] \<and> generate e req2 = Inr roast)"
proof (cases "\<not> truthy (state_get fl ''user_info'') \<or> \<not> truthy (state_get fl ''repos'')")
  case True
  then show ?thesis by (simp add: generate_roast_def)
next
  case False
  then obtain ui rp where present: "state fl ''user_info'' = Some ui" "state fl ''repos'' = Some rp"
    by (auto simp add: state_get_def split: option.splits)
  show ?thesis
  proof (cases "state fl ''username''")
    case None
    then show ?thesis using False
      by (simp add: generate_roast_def state_item_def bind_result_def)
  next
    case (Some un)
    let ?inputs = "[(''username'', un), (''repos'', rp), (''user_info'', ui), (''date'', PStr (today e))]"
    let ?req1 = "\<lparr>req_task = AnalysisTask, req_role = task_role AnalysisTask,
                  req_inputs = filter (\<lambda>kv. fst kv \<in> set (task_fields AnalysisTask)) ?inputs,
                  req_context = []\<rparr>"
    have gr: "generate_roast e fl =
      (case crew_kickoff e [AnalysisTask, RoastTask] ?inputs (gen_log fl) of
         (roast, glog') \<Rightarrow>
           (case roast of Inl ex \<Rightarrow> (Inl ex, fl\<lparr>gen_log := glog'\<rparr>)
            | Inr t \<Rightarrow> (Inr (Some (ui, t)), fl\<lparr>gen_log := glog'\<rparr>)))"
      using False present Some
      by (simp add: generate_roast_def state_item_def bind_result_def Let_def
          split: prod.splits sum.splits)
    show ?thesis
    proof (cases "generate e ?req1")
      case (Inl ex)
      then have "generate_roast e fl = (Inl ex, fl\<lparr>gen_log := gen_log fl @ [?req1]\<rparr>)"
        unfolding gr crew_kickoff_two by (simp add: Let_def)
      then have "\<exists>req1 ex. generate_roast e fl = (Inl ex, fl\<lparr>gen_log := gen_log fl @ [req1]\<rparr>) \<and>
          req_task req1 = AnalysisTask \<and> req_context req1 = [] \<and> generate e req1 = Inl ex"
        using Inl by (intro exI [of _ ?req1] exI [of _ ex]) simp
      then show ?thesis by blast
    next
      case (Inr out1)
      let ?req2 = "\<lparr>req_task = RoastTask, req_role = task_role RoastTask,
                    req_inputs = filter (\<lambda>kv. fst kv \<in> set (task_fields RoastTask)) ?inputs,
                    req_context = [out1]\<rparr>"
      show ?thesis
      proof (cases "generate e ?req2")
        case (Inl ex)
        have "generate_roast e fl = (Inl ex, fl\<lparr>gen_log := gen_log fl @ [?req1, ?req2]\<rparr>)"
          unfolding gr crew_kickoff_two using Inr Inl by (simp add: Let_def)
        then have "\<exists>req1 req2 out1 ex.
          generate_roast e fl = (Inl ex, fl\<lparr>gen_log := gen_log fl @ [req1, req2]\<rparr>) \<and>
          req_task req1 = AnalysisTask \<and> req_context req1 = [] \<and> generate e req1 = Inr out1 \<and>
          req_task req2 = RoastTask \<and> req_context req2 = [out1] \<and> generate e req2 = Inl ex"
          using Inr Inl
          by (intro exI [of _ ?req1] exI [of _ ?req2] exI [of _ out1] exI [of _ ex]) simp
        then show ?thesis by blast
      next
        case (Inr roast)
        have "generate_roast e fl = (Inr (Some (ui, roast)), fl\<lparr>gen_log := gen_log fl @ [?req1, ?req2]\<rparr>)"
          unfolding gr crew_kickoff_two using \<open>generate e ?req1 = Inr out1\<close> Inr by (simp add: Let_def)
        then have "\<exists>req1 req2 out1 roast user_info.
          generate_roast e fl = (Inr (Some (user_info, roast)), fl\<lparr>gen_log := gen_log fl @ [req1, req2]\<rparr>) \<and>
          state fl ''user_info'' = Some user_info \<and>
          req_task req1 = AnalysisTask \<and> req_context req1 = [] \<and> generate e req1 = Inr out1 \<and>
          req_task req2 = RoastTask \<and> req_context req2 = [out1] \<and> generate e req2 = Inr roast"
          using \<open>generate e ?req1 = Inr out1\<close> Inr present(1)
          by (intro exI [of _ ?req1] exI [of _ ?req2] exI [of _ out1] exI [of _ roast] exI [of _ ui]) simp
        then show ?thesis by blast
      qed
    qed
  qed
qed

lemma flow_kickoff_stages:
  "\<exists>fl2. flow_kickoff e [(''username'', PStr u)] = generate_roast e fl2 \<and> gen_log fl2 = [] \<and>
     state fl2 ''username'' = Some (PStr u) \<and>
     state fl2 ''user_info'' = map_option PDict (fst (get_github_user_info e u r1)) \<and>
     (case fst (get_github_repos e u r2) of
        None \<Rightarrow> state fl2 ''repos'' = None
      | Some rs \<Rightarrow>
          if rs = [] then state fl2 ''repos'' = None
          else (\<exists>text. repos_text (py_repr e) rs = Inr text \<and> text \<noteq> [] \<and>
                  state fl2 ''repos'' = Some (PStr text)))"
proof -
  let ?fl0 = "\<lparr>state = map_of ([(''username'', PStr u)] @ [(''id'', PStr (flow_id e))]),
              requests = [], gen_log = []\<rparr>"
  have u0: "state ?fl0 ''username'' = Some (PStr u)" by simp
  obtain outs fl2 where run: "run_start_tasks e ?fl0 = (Inr outs, fl2)"
    and glog: "gen_log fl2 = gen_log ?fl0"
    and other: "\<forall>k. k \<noteq> ''user_info'' \<and> k \<noteq> ''repos'' \<longrightarrow> state fl2 k = state ?fl0 k"
    and user: "state fl2 ''user_info'' =
             (case fst (get_github_user_info e (py_str (py_repr e) (PStr u)) r1) of
                None \<Rightarrow> state ?fl0 ''user_info'' | Some ui \<Rightarrow> Some (PDict ui))"
    and repos: "(case fst (get_github_repos e (py_str (py_repr e) (PStr u)) r2) of
              None \<Rightarrow> state fl2 ''repos'' = state ?fl0 ''repos''
            | Some rs \<Rightarrow>
                if rs = [] then state fl2 ''repos'' = state ?fl0 ''repos''
                else (\<exists>text. repos_text (py_repr e) rs = Inr text \<and> text \<noteq> [] \<and>
                        state fl2 ''repos'' = Some (PStr text)))"
    using run_start_tasks_effect [OF u0, of e r1 r2] by blast
  have "flow_kickoff e [(''username'', PStr u)] = generate_roast e fl2"
    using run by (simp add: flow_kickoff_def)
  moreover have "gen_log fl2 = []" using glog by simp
  moreover have "state fl2 ''username'' = Some (PStr u)" using other by simp
  moreover have "state fl2 ''user_info'' = map_option PDict (fst (get_github_user_info e u r1))"
    using user by (simp split: option.splits)
  moreover have "(case fst (get_github_repos e u r2) of
        None \<Rightarrow> state fl2 ''repos'' = None
      | Some rs \<Rightarrow>
          if rs = [] then state fl2 ''repos'' = None
          else (\<exists>text. repos_text (py_repr e) rs = Inr text \<and> text \<noteq> [] \<and>
                  state fl2 ''repos'' = Some (PStr text)))"
    using repos by (simp split: option.splits)
  ultimately show ?thesis by blast
qed

lemma flow_kickoff_outcome:
  "(fst (flow_kickoff e [(''username'', PStr u)]) = Inr None \<and>
      gen_log (snd (flow_kickoff e [(''username'', PStr u)])) = []) \<or>
   (\<exists>req1 ex. fst (flow_kickoff e [(''username'', PStr u)]) = Inl ex \<and>
      gen_log (snd (flow_kickoff e [(''username'', PStr u)])) = [req1] \<and>
      req_task req1 = AnalysisTask \<and> req_context req1 = [] \<and> generate e req1 = Inl ex) \<or>
   (\<exists>req1 req2 out1 ex. fst (flow_kickoff e [(''username'', PStr u)]) = Inl ex \<and>
      gen_log (snd (flow_kickoff e [(''username'', PStr u)])) = [req1, req2] \<and>
      req_task req1 = AnalysisTask \<and> req_context req1 = [] \<and> generate e req1 = Inr out1 \<and>
      req_task req2 = RoastTask \<and> req_context req2 = [out1] \<and> generate e req2 = Inl ex) \<or>
   (\<exists>req1 req2 out1 roast ui.
      fst (flow_kickoff e [(''username'', PStr u)]) = Inr (Some (PDict ui, roast)) \<and>
      gen_log (snd (flow_kickoff e [(''username'', PStr u)])) = [req1, req2] \<and>
      fst (get_github_user_info e u r1) = Some ui \<and>
      req_task req1 = AnalysisTask \<and> req_context req1 = [] \<and> generate e req1 = Inr out1 \<and>
      req_task req2 = RoastTask \<and> req_context req2 = [out1] \<and> generate e req2 = Inr roast)"
proof -
  obtain fl2 where run: "flow_kickoff e [(''username'', PStr u)] = generate_roast e fl2"
    and glog: "gen_log fl2 = []"
    and name: "state fl2 ''username'' = Some (PStr u)"
    and user: "state fl2 ''user_info'' = map_option PDict (fst (get_github_user_info e u r1))"
    using flow_kickoff_stages [of e u r1] by blast
  have profile: "\<exists>ui. v = PDict ui \<and> fst (get_github_user_info e u r1) = Some ui"
    if "state fl2 ''user_info'' = Some v" for v
    using that user by (cases "fst (get_github_user_info e u r1)") auto
  show ?thesis
    using generate_roast_outcome [of e fl2] name run glog
    by (elim disjE exE conjE) (auto dest: profile)
qed

lemma flow_kickoff_not_found:
  assumes "fst (get_github_user_info e u r1) = None \<or> fst (get_github_repos e u r2) = None
             \<or> fst (get_github_repos e u r2) = Some []"
  shows "flow_kickoff e [(''username'', PStr u)] = (Inr None, snd (flow_kickoff e [(''username'', PStr u)]))
         \<and> gen_log (snd (flow_kickoff e [(''username'', PStr u)])) = []"
proof -
  obtain fl2 where run: "flow_kickoff e [(''username'', PStr u)] = generate_roast e fl2"
    and glog: "gen_log fl2 = []"
    and user: "state fl2 ''user_info'' = map_option PDict (fst (get_github_user_info e u r1))"
    and repos: "(case fst (get_github_repos e u r2) of
        None \<Rightarrow> state fl2 ''repos'' = None
      | Some rs \<Rightarrow>
          if rs = [] then state fl2 ''repos'' = None
          else (\<exists>text. repos_text (py_repr e) rs = Inr text \<and> text \<noteq> [] \<and>
                  state fl2 ''repos'' = Some (PStr text)))"
    using flow_kickoff_stages [of e u r1 r2] by blast
  have "state fl2 ''user_info'' = None \<or> state fl2 ''repos'' = None"
    using assms user repos by auto
  then have "generate_roast e fl2 = (Inr None, fl2)" by (rule generate_roast_guard)
  then show ?thesis using run glog by simp
qed

lemma start_repo_info_failed:
  assumes "state fl ''username'' = Some un"
    and "fst (get_github_repos e (py_str (py_repr e) un) r) = None \<or>
         fst (get_github_repos e (py_str (py_repr e) un) r) = Some []"
  shows "fst (start_repo_info e fl) = Inr (PDict [(''error'', PStr ''Failed to fetch repositories data'')])
         \<and> state (snd (start_repo_info e fl)) = state fl"
proof -
  obtain res reqs' where g: "get_github_repos e (py_str (py_repr e) un) (requests fl) = (res, reqs')"
    by (cases "get_github_repos e (py_str (py_repr e) un) (requests fl)")
  have "fst (get_github_repos e (py_str (py_repr e) un) r) = res"
    using g repos_fetch_indep [of e "py_str (py_repr e) un" r "requests fl"] by simp
  then have "res = None \<or> res = Some []" using assms(2) by simp
  then show ?thesis using assms(1) g
    by (auto simp add: start_repo_info_def state_item_def)
qed

lemmas run_defs =
  sparse_env_def sparse_profile_def flow_kickoff_def run_start_tasks_def start_user_info_def start_repo_info_def
  generate_roast_def crew_kickoff_def get_github_user_info_def get_github_repos_def
  user_info_dict_def repo_dict_def repos_text_def render_repo_def
  state_item_def state_get_def bind_result_def dict_item_def dict_get_def dict_get_default_def
  py_or_def example_env_def failing_env_def example_users_api_def example_repos_api_def
  example_generate_def failing_generate_def Let_def

section \<open>A failed lookup\<close>

text \<open>
  Claim C1. When the profile fetch or the repository fetch returns \<^verbatim>\<open>None\<close> for the
  subject key, the run returns the failure value \<^verbatim>\<open>None\<close>, which \<^verbatim>\<open>main\<close> reports as
  a user that does not exist, and the generation capability is never called.
\<close>

theorem not_found_run_fails_without_generation:
  assumes "fst (get_github_user_info e u r1) = None \<or> fst (get_github_repos e u r2) = None"
  shows "fst (flow_kickoff e [(''username'', PStr u)]) = Inr None \<and>
         gen_log (snd (flow_kickoff e [(''username'', PStr u)])) = [] \<and>
         main e u = (if u = [] then ShowError ''Please enter a GitHub username''
                     else ShowError ''The username provided does not exist.'')"
proof -
  have "fst (get_github_user_info e u r1) = None \<or> fst (get_github_repos e u r2) = None
          \<or> fst (get_github_repos e u r2) = Some []"
    using assms by blast
  then have "flow_kickoff e [(''username'', PStr u)] = (Inr None, snd (flow_kickoff e [(''username'', PStr u)]))
         \<and> gen_log (snd (flow_kickoff e [(''username'', PStr u)])) = []"
    by (rule flow_kickoff_not_found)
  then have "fst (flow_kickoff e [(''username'', PStr u)]) = Inr None"
    and "gen_log (snd (flow_kickoff e [(''username'', PStr u)])) = []"
    by (metis fst_conv, simp)
  then show ?thesis by (simp add: main_def)
qed

theorem not_found_run_fails_without_generation_witness:
  "fst (get_github_user_info example_env ''ghost-user-404'' []) = None \<and>
   fst (flow_kickoff example_env [(''username'', PStr ''ghost-user-404'')]) = Inr None \<and>
   gen_log (snd (flow_kickoff example_env [(''username'', PStr ''ghost-user-404'')])) = [] \<and>
   main example_env ''ghost-user-404'' = ShowError ''The username provided does not exist.''"
proof -
  have missing: "fst (get_github_user_info example_env ''ghost-user-404'' []) = None"
    by (simp add: get_github_user_info_def example_env_def example_users_api_def Let_def)
  then have "fst (get_github_user_info example_env ''ghost-user-404'' []) = None \<or>
     fst (get_github_repos example_env ''ghost-user-404'' []) = None" ..
  from not_found_run_fails_without_generation [OF this] missing
  show ?thesis by simp
qed

section \<open>The generation calls of a successful run\<close>

text \<open>
  Claim C2. A run that returns the pair has called the generation capability exactly
  twice: first for the analysis task, with no context, then for the roast task. The
  second request carries the text the first call returned as its context, so it is made
  after the first call has returned. The roast of the pair is the answer to the second
  request.
\<close>

theorem successful_run_two_generation_calls:
  assumes "fst (flow_kickoff e [(''username'', PStr u)]) = Inr (Some (ui, roast))"
  shows "\<exists>req1 req2 out1.
           gen_log (snd (flow_kickoff e [(''username'', PStr u)])) = [req1, req2] \<and>
           req_task req1 = AnalysisTask \<and> req_context req1 = [] \<and> generate e req1 = Inr out1 \<and>
           req_task req2 = RoastTask \<and> req_context req2 = [out1] \<and> generate e req2 = Inr roast"
  using flow_kickoff_outcome [of e u "[]"] assms
  by (elim disjE exE conjE) auto

theorem successful_run_two_generation_calls_witness:
  "fst (flow_kickoff example_env [(''username'', PStr ''octocat'')]) =
     Inr (Some (PDict [(''username'', PStr ''octocat''), (''name'', PStr ''Not provided''),
                       (''bio'', PStr ''No bio provided''), (''followers'', PInt 100),
                       (''following'', PInt 0), (''public_repos'', PInt 5),
                       (''location'', PStr ''Not provided''), (''company'', PStr ''Not provided''),
                       (''blog'', PStr ''Not provided''), (''created_at'', PNone),
                       (''avatar_url'', PNone)], ''roast'')) \<and>
   (\<exists>req1 req2 out1.
      gen_log (snd (flow_kickoff example_env [(''username'', PStr ''octocat'')])) = [req1, req2] \<and>
      req_task req1 = AnalysisTask \<and> req_context req1 = [] \<and>
      generate example_env req1 = Inr out1 \<and>
      req_task req2 = RoastTask \<and> req_context req2 = [out1] \<and>
      generate example_env req2 = Inr ''roast'')"
proof -
  have ran: "fst (flow_kickoff example_env [(''username'', PStr ''octocat'')]) =
     Inr (Some (PDict [(''username'', PStr ''octocat''), (''name'', PStr ''Not provided''),
                       (''bio'', PStr ''No bio provided''), (''followers'', PInt 100),
                       (''following'', PInt 0), (''public_repos'', PInt 5),
                       (''location'', PStr ''Not provided''), (''company'', PStr ''Not provided''),
                       (''blog'', PStr ''Not provided''), (''created_at'', PNone),
                       (''avatar_url'', PNone)], ''roast''))"
    by (simp add: run_defs)
  from successful_run_two_generation_calls [OF ran] ran
  show ?thesis by blast
qed

section \<open>Normalization of the profile\<close>

lemma truthy_not_none: "truthy v \<Longrightarrow> v \<noteq> PNone"
  by auto

text \<open>
  Claim C3. Take a profile payload as the lookup service sends it: \<^verbatim>\<open>login\<close>,
  \<^verbatim>\<open>created_at\<close> and \<^verbatim>\<open>avatar_url\<close> are there, and no count is null. Whatever its
  optional fields \<^verbatim>\<open>name\<close>, \<^verbatim>\<open>bio\<close>, \<^verbatim>\<open>location\<close>, \<^verbatim>\<open>company\<close> and \<^verbatim>\<open>blog\<close> are,
  absent, null or given, the record returned by \<^verbatim>\<open>get_github_user_info\<close> has its
  eleven keys and none of its values is \<^verbatim>\<open>None\<close>. An optional field that is absent or
  null upstream is replaced by its sentinel, \<^verbatim>\<open>"Not provided"\<close>, or
  \<^verbatim>\<open>"No bio provided"\<close> for the bio, and a count that is absent is 0.
\<close>

theorem profile_defaulting_total:
  assumes "fst (get_github_user_info e u reqs) = Some r"
    and "data = json_body (users_api e (''https://api.github.com/users/'' @ u))"
    and "dict_get data ''login'' \<noteq> PNone"
    and "dict_get data ''created_at'' \<noteq> PNone"
    and "dict_get data ''avatar_url'' \<noteq> PNone"
    and "\<forall>k \<in> {''followers'', ''following'', ''public_repos''}. map_of data k \<noteq> Some PNone"
  shows "map fst r = [''username'', ''name'', ''bio'', ''followers'', ''following'',
                      ''public_repos'', ''location'', ''company'', ''blog'', ''created_at'',
                      ''avatar_url''] \<and>
         (\<forall>k \<in> set (map fst r). \<exists>v. dict_item r k = Inr v \<and> v \<noteq> PNone) \<and>
         (\<forall>k \<in> {''name'', ''location'', ''company'', ''blog''}.
            map_of data k = None \<or> map_of data k = Some PNone
              \<longrightarrow> dict_item r k = Inr (PStr ''Not provided'')) \<and>
         (map_of data ''bio'' = None \<or> map_of data ''bio'' = Some PNone
            \<longrightarrow> dict_item r ''bio'' = Inr (PStr ''No bio provided'')) \<and>
         (\<forall>k \<in> {''followers'', ''following'', ''public_repos''}.
            map_of data k = None \<longrightarrow> dict_item r k = Inr (PInt 0))"
proof -
  have r: "r = user_info_dict data" using assms(1,2) user_fetch_Some by simp
  have keys: "map fst (user_info_dict data) =
      [''username'', ''name'', ''bio'', ''followers'', ''following'', ''public_repos'',
       ''location'', ''company'', ''blog'', ''created_at'', ''avatar_url'']"
    by (simp add: user_info_dict_def)
  have text_field: "py_or (dict_get data k) (PStr s) \<noteq> PNone" if "s \<noteq> []" for k s
    using that truthy_not_none [of "dict_get data k"] by (auto simp add: py_or_def)
  have count: "dict_get_default data k (PInt 0) \<noteq> PNone"
    if "map_of data k \<noteq> Some PNone" for k
    using that by (cases "map_of data k") (auto simp add: dict_get_default_def)
  have counts: "dict_get_default data ''followers'' (PInt 0) \<noteq> PNone"
    "dict_get_default data ''following'' (PInt 0) \<noteq> PNone"
    "dict_get_default data ''public_repos'' (PInt 0) \<noteq> PNone"
    using assms(6) by (simp_all add: count)
  have filled: "\<forall>k \<in> set (map fst (user_info_dict data)).
                  \<exists>v. dict_item (user_info_dict data) k = Inr v \<and> v \<noteq> PNone"
    unfolding keys using assms(3,4,5) counts
    by (simp add: user_info_dict_def dict_item_def text_field)
  have sentinels: "\<forall>k \<in> {''name'', ''location'', ''company'', ''blog''}.
            map_of data k = None \<or> map_of data k = Some PNone
              \<longrightarrow> dict_item (user_info_dict data) k = Inr (PStr ''Not provided'')"
    by (auto simp add: user_info_dict_def dict_item_def dict_get_def py_or_def)
  have bio: "map_of data ''bio'' = None \<or> map_of data ''bio'' = Some PNone
            \<longrightarrow> dict_item (user_info_dict data) ''bio'' = Inr (PStr ''No bio provided'')"
    by (auto simp add: user_info_dict_def dict_item_def dict_get_def py_or_def)
  have zero: "\<forall>k \<in> {''followers'', ''following'', ''public_repos''}.
            map_of data k = None \<longrightarrow> dict_item (user_info_dict data) k = Inr (PInt 0)"
    by (simp add: user_info_dict_def dict_item_def dict_get_default_def)
  show ?thesis unfolding r using keys filled sentinels bio zero by blast
qed

text \<open>
  The sparse profile has a null name, bio, location and company and an empty blog.
\<close>

theorem profile_defaulting_total_witness:
  "fst (get_github_user_info sparse_env ''hubot'' []) =
     Some [(''username'', PStr ''hubot''), (''name'', PStr ''Not provided''),
           (''bio'', PStr ''No bio provided''), (''followers'', PInt 7),
           (''following'', PInt 0), (''public_repos'', PInt 2),
           (''location'', PStr ''Not provided''), (''company'', PStr ''Not provided''),
           (''blog'', PStr ''Not provided''),
           (''created_at'', PStr ''2011-01-25T18:44:36Z''),
           (''avatar_url'', PStr ''https://avatars.githubusercontent.com/u/583231'')] \<and>
   map_of sparse_profile ''name'' = Some PNone \<and>
   dict_item (user_info_dict sparse_profile) ''name'' = Inr (PStr ''Not provided'') \<and>
   dict_item (user_info_dict sparse_profile) ''bio'' = Inr (PStr ''No bio provided'')"
proof -
  have fetched: "fst (get_github_user_info sparse_env ''hubot'' []) = Some (user_info_dict sparse_profile)"
    by (simp add: get_github_user_info_def sparse_env_def Let_def)
  have body: "sparse_profile = json_body (users_api sparse_env (''https://api.github.com/users/'' @ ''hubot''))"
    by (simp add: sparse_env_def)
  have login: "dict_get sparse_profile ''login'' \<noteq> PNone"
    and created: "dict_get sparse_profile ''created_at'' \<noteq> PNone"
    and avatar: "dict_get sparse_profile ''avatar_url'' \<noteq> PNone"
    by (simp_all add: sparse_profile_def dict_get_def)
  have counts: "\<forall>k \<in> {''followers'', ''following'', ''public_repos''}.
                  map_of sparse_profile k \<noteq> Some PNone"
    by (simp add: sparse_profile_def)
  have null_name: "map_of sparse_profile ''name'' = Some PNone"
    and null_bio: "map_of sparse_profile ''bio'' = Some PNone"
    by (simp_all add: sparse_profile_def)
  have normalized: "user_info_dict sparse_profile =
        [(''username'', PStr ''hubot''), (''name'', PStr ''Not provided''),
           (''bio'', PStr ''No bio provided''), (''followers'', PInt 7),
           (''following'', PInt 0), (''public_repos'', PInt 2),
           (''location'', PStr ''Not provided''), (''company'', PStr ''Not provided''),
           (''blog'', PStr ''Not provided''),
           (''created_at'', PStr ''2011-01-25T18:44:36Z''),
           (''avatar_url'', PStr ''https://avatars.githubusercontent.com/u/583231'')]"
    by (simp add: user_info_dict_def sparse_profile_def dict_get_def dict_get_default_def py_or_def)
  from profile_defaulting_total [OF fetched body login created avatar counts]
  have "(\<forall>k \<in> set (map fst (user_info_dict sparse_profile)).
           \<exists>v. dict_item (user_info_dict sparse_profile) k = Inr v \<and> v \<noteq> PNone) \<and>
        dict_item (user_info_dict sparse_profile) ''name'' = Inr (PStr ''Not provided'') \<and>
        dict_item (user_info_dict sparse_profile) ''bio'' = Inr (PStr ''No bio provided'')"
    using null_name null_bio by blast
  then show ?thesis using fetched null_name normalized by simp
qed

section \<open>A failed generation step\<close>

text \<open>
  \<^verbatim>\<open>generate_roast\<close> calls \<^verbatim>\<open>crew.kickoff\<close> without a handler and has no failure value
  other than \<^verbatim>\<open>None\<close>. Both lookups succeed for \<^verbatim>\<open>octocat\<close>; on the state the two
  producers leave, with a capability whose second step fails after the first has
  answered, the join task does not return a failure: it raises.
\<close>

theorem generation_failure_counterexample:
  "state (snd (run_start_tasks failing_env
      \<lparr>state = map_of [(''username'', PStr ''octocat'')], requests = [], gen_log = []\<rparr>)) ''user_info''
     \<noteq> None \<and>
   state (snd (run_start_tasks failing_env
      \<lparr>state = map_of [(''username'', PStr ''octocat'')], requests = [], gen_log = []\<rparr>)) ''repos''
     \<noteq> None \<and>
   map (generate failing_env)
     (gen_log (snd (generate_roast failing_env (snd (run_start_tasks failing_env
        \<lparr>state = map_of [(''username'', PStr ''octocat'')], requests = [], gen_log = []\<rparr>)))))
     = [Inr ''insights'', Inl GenerationError] \<and>
   fst (generate_roast failing_env (snd (run_start_tasks failing_env
      \<lparr>state = map_of [(''username'', PStr ''octocat'')], requests = [], gen_log = []\<rparr>)))
     = Inl GenerationError"
  by (simp add: run_defs)

text \<open>
  Claim C4, as amended. When a generation request made by \<^verbatim>\<open>generate_roast\<close> fails,
  which only happens once both fetches have succeeded, \<^verbatim>\<open>generate_roast\<close> does not
  turn the failure into a result: the exception of the failed step leaves
  \<^verbatim>\<open>generate_roast\<close>, which returns neither a failure value, nor the pair, nor the
  text of a first step that succeeded.
\<close>

theorem generation_failure_leaves_join_task:
  assumes "req \<in> set (drop (length (gen_log fl)) (gen_log (snd (generate_roast e fl))))"
    and "generate e req = Inl ex"
  shows "fst (generate_roast e fl) = Inl ex"
  using generate_roast_outcome [of e fl] assms
  by (elim disjE exE conjE) auto

theorem generation_failure_leaves_join_task_witness:
  "last (gen_log (snd (generate_roast failing_env
      \<lparr>state = [''username'' \<mapsto> PStr ''octocat'', ''user_info'' \<mapsto> PDict [(''username'', PStr ''octocat'')],
                ''repos'' \<mapsto> PStr ''- Name: Spoon-Knife''],
       requests = [], gen_log = []\<rparr>)))
     \<in> set (drop (length ([] :: gen_request list)) (gen_log (snd (generate_roast failing_env
      \<lparr>state = [''username'' \<mapsto> PStr ''octocat'', ''user_info'' \<mapsto> PDict [(''username'', PStr ''octocat'')],
                ''repos'' \<mapsto> PStr ''- Name: Spoon-Knife''],
       requests = [], gen_log = []\<rparr>)))) \<and>
   generate failing_env (last (gen_log (snd (generate_roast failing_env
      \<lparr>state = [''username'' \<mapsto> PStr ''octocat'', ''user_info'' \<mapsto> PDict [(''username'', PStr ''octocat'')],
                ''repos'' \<mapsto> PStr ''- Name: Spoon-Knife''],
       requests = [], gen_log = []\<rparr>))))
     = Inl GenerationError \<and>
   fst (generate_roast failing_env
      \<lparr>state = [''username'' \<mapsto> PStr ''octocat'', ''user_info'' \<mapsto> PDict [(''username'', PStr ''octocat'')],
                ''repos'' \<mapsto> PStr ''- Name: Spoon-Knife''],
       requests = [], gen_log = []\<rparr>)
     = Inl GenerationError"
proof -
  let ?fl = "\<lparr>state = [''username'' \<mapsto> PStr ''octocat'', ''user_info'' \<mapsto> PDict [(''username'', PStr ''octocat'')],
                ''repos'' \<mapsto> PStr ''- Name: Spoon-Knife''],
       requests = [], gen_log = []\<rparr>"
  let ?log = "gen_log (snd (generate_roast failing_env ?fl))"
  have logged: "last ?log \<in> set (drop (length (gen_log ?fl)) ?log)"
    by (simp add: run_defs)
  have failed: "generate failing_env (last ?log) = Inl GenerationError"
    by (simp add: run_defs)
  from generation_failure_leaves_join_task [OF logged failed] logged failed
  show ?thesis by simp
qed

section \<open>The shape of the result\<close>

text \<open>
  The source has one failure value, \<^verbatim>\<open>None\<close>. A profile that is not found, a user
  without repositories and a join task started on a state without its keys all return
  it, and \<^verbatim>\<open>main\<close> shows the same page for the first two.
\<close>

theorem failure_kinds_counterexample:
  "fst (flow_kickoff example_env [(''username'', PStr ''ghost-user-404'')]) = Inr None \<and>
   fst (flow_kickoff example_env [(''username'', PStr ''newcomer'')]) = Inr None \<and>
   fst (generate_roast example_env \<lparr>state = Map.empty, requests = [], gen_log = []\<rparr>) = Inr None \<and>
   main example_env ''ghost-user-404'' = main example_env ''newcomer''"
  by (simp add: run_defs main_def)

text \<open>
  Claim C5, as amended. In every run whose join task returns, the caller receives what
  \<^verbatim>\<open>generate_roast\<close> returned, one of two things. Either the single failure value
  \<^verbatim>\<open>None\<close>, which carries no category, and then no generation call was made. Or the
  complete pair: the normalized profile that the fetcher returned, and the text that the
  roast step generated. A returned value is never a part of the pair. Runs in which a
  method of the flow raises are not covered.
\<close>

theorem returned_result_shape:
  "(fst (flow_kickoff e [(''username'', PStr u)]) = Inr None
      \<longrightarrow> gen_log (snd (flow_kickoff e [(''username'', PStr u)])) = []) \<and>
   (fst (flow_kickoff e [(''username'', PStr u)]) = Inr (Some (v, roast))
      \<longrightarrow> (\<exists>ui req1 req2.
             v = PDict ui \<and> fst (get_github_user_info e u r) = Some ui \<and>
             gen_log (snd (flow_kickoff e [(''username'', PStr u)])) = [req1, req2] \<and>
             req_task req1 = AnalysisTask \<and> req_task req2 = RoastTask \<and>
             generate e req2 = Inr roast))"
  using flow_kickoff_outcome [of e u r]
  by (elim disjE exE conjE) auto

theorem returned_result_shape_witness:
  "fst (flow_kickoff example_env [(''username'', PStr ''ghost-user-404'')]) = Inr None \<and>
   gen_log (snd (flow_kickoff example_env [(''username'', PStr ''ghost-user-404'')])) = [] \<and>
   fst (flow_kickoff example_env [(''username'', PStr ''octocat'')]) =
     Inr (Some (PDict (user_info_dict [(''login'', PStr ''octocat''), (''name'', PNone),
                                       (''followers'', PInt 100), (''public_repos'', PInt 5)]),
                ''roast'')) \<and>
   fst (get_github_user_info example_env ''octocat'' []) =
     Some (user_info_dict [(''login'', PStr ''octocat''), (''name'', PNone),
                           (''followers'', PInt 100), (''public_repos'', PInt 5)]) \<and>
   map req_task (gen_log (snd (flow_kickoff example_env [(''username'', PStr ''octocat'')])))
     = [AnalysisTask, RoastTask]"
proof -
  let ?ui = "user_info_dict [(''login'', PStr ''octocat''), (''name'', PNone),
                             (''followers'', PInt 100), (''public_repos'', PInt 5)]"
  have missing: "fst (flow_kickoff example_env [(''username'', PStr ''ghost-user-404'')]) = Inr None"
    by (simp add: run_defs)
  have pair: "fst (flow_kickoff example_env [(''username'', PStr ''octocat'')]) =
                Inr (Some (PDict ?ui, ''roast''))"
    by (simp add: run_defs)
  have no_calls: "gen_log (snd (flow_kickoff example_env [(''username'', PStr ''ghost-user-404'')])) = []"
    using returned_result_shape [of example_env "''ghost-user-404''" PNone "[]" "[]"] missing
    by blast
  have "\<exists>ui req1 req2.
          PDict ?ui = PDict ui \<and> fst (get_github_user_info example_env ''octocat'' []) = Some ui \<and>
          gen_log (snd (flow_kickoff example_env [(''username'', PStr ''octocat'')])) = [req1, req2] \<and>
          req_task req1 = AnalysisTask \<and> req_task req2 = RoastTask \<and>
          generate example_env req2 = Inr ''roast''"
    using returned_result_shape [of example_env "''octocat''" "PDict ?ui" "''roast''" "[]"] pair
    by blast
  then have "fst (get_github_user_info example_env ''octocat'' []) = Some ?ui"
    and "map req_task (gen_log (snd (flow_kickoff example_env [(''username'', PStr ''octocat'')])))
           = [AnalysisTask, RoastTask]"
    by auto
  then show ?thesis using missing pair no_calls by simp
qed

section \<open>The guard of the join task\<close>

text \<open>
  Claim C6. When \<^verbatim>\<open>generate_roast\<close> starts in a state where \<^verbatim>\<open>user_info\<close> or
  \<^verbatim>\<open>repos\<close> is absent, it returns the failure value \<^verbatim>\<open>None\<close>: it raises no exception,
  it leaves the flow as it was, and it makes no generation call.
\<close>

theorem join_guard_returns_none:
  assumes "state fl ''user_info'' = None \<or> state fl ''repos'' = None"
  shows "fst (generate_roast e fl) = Inr None \<and> snd (generate_roast e fl) = fl \<and>
         gen_log (snd (generate_roast e fl)) = gen_log fl"
  using generate_roast_guard [OF assms] by simp

theorem join_guard_returns_none_witness:
  "state \<lparr>state = [''username'' \<mapsto> PStr ''octocat'', ''repos'' \<mapsto> PStr ''- Name: x''],
          requests = [], gen_log = []\<rparr> ''user_info'' = None \<and>
   fst (generate_roast example_env
          \<lparr>state = [''username'' \<mapsto> PStr ''octocat'', ''repos'' \<mapsto> PStr ''- Name: x''],
           requests = [], gen_log = []\<rparr>) = Inr None \<and>
   gen_log (snd (generate_roast example_env
          \<lparr>state = [''username'' \<mapsto> PStr ''octocat'', ''repos'' \<mapsto> PStr ''- Name: x''],
           requests = [], gen_log = []\<rparr>)) = []"
proof -
  let ?fl = "\<lparr>state = [''username'' \<mapsto> PStr ''octocat'', ''repos'' \<mapsto> PStr ''- Name: x''],
           requests = [], gen_log = []\<rparr>"
  have absent: "state ?fl ''user_info'' = None" by simp
  then have "state ?fl ''user_info'' = None \<or> state ?fl ''repos'' = None" ..
  from join_guard_returns_none [OF this, of example_env] absent
  show ?thesis by simp
qed

section \<open>The state at the join\<close>

text \<open>
  Both start methods read \<^verbatim>\<open>self.state["username"]\<close>, which the inputs of the run
  provide: when both have succeeded for \<^verbatim>\<open>octocat\<close> the state holds three keys.
\<close>

theorem joined_state_counterexample:
  "state (snd (run_start_tasks example_env
      \<lparr>state = map_of [(''username'', PStr ''octocat'')], requests = [], gen_log = []\<rparr>)) ''username''
     = Some (PStr ''octocat'') \<and>
   dom (state (snd (run_start_tasks example_env
      \<lparr>state = map_of [(''username'', PStr ''octocat'')], requests = [], gen_log = []\<rparr>)))
     = {''username'', ''user_info'', ''repos''}"
  by (auto simp add: run_defs)

text \<open>
  Claim C7, as amended. When both producers have succeeded, the state is the state the
  run started with, which holds the key \<^verbatim>\<open>username\<close>, extended by exactly two keys:
  \<^verbatim>\<open>user_info\<close>, bound to the profile record, and \<^verbatim>\<open>repos\<close>, bound to the text
  rendered from the repository list. This holds for either order of the two producers.
\<close>

theorem joined_state_keys:
  assumes "state fl0 ''username'' = Some (PStr u)"
    and "fst (get_github_user_info e u r1) = Some ui"
    and "fst (get_github_repos e u r2) = Some rs"
    and "rs \<noteq> []"
  shows "\<exists>rt. repos_text (py_repr e) rs = Inr rt \<and>
           state (snd (run_start_tasks e fl0)) = (state fl0)(''user_info'' \<mapsto> PDict ui, ''repos'' \<mapsto> PStr rt) \<and>
           dom (state (snd (run_start_tasks e fl0))) = dom (state fl0) \<union> {''user_info'', ''repos''} \<and>
           ''username'' \<in> dom (state (snd (run_start_tasks e fl0)))"
proof -
  obtain outs fl2 where run: "run_start_tasks e fl0 = (Inr outs, fl2)"
    and other: "\<forall>k. k \<noteq> ''user_info'' \<and> k \<noteq> ''repos'' \<longrightarrow> state fl2 k = state fl0 k"
    and user: "state fl2 ''user_info'' =
             (case fst (get_github_user_info e (py_str (py_repr e) (PStr u)) r1) of
                None \<Rightarrow> state fl0 ''user_info'' | Some ui \<Rightarrow> Some (PDict ui))"
    and repos: "(case fst (get_github_repos e (py_str (py_repr e) (PStr u)) r2) of
              None \<Rightarrow> state fl2 ''repos'' = state fl0 ''repos''
            | Some rs \<Rightarrow>
                if rs = [] then state fl2 ''repos'' = state fl0 ''repos''
                else (\<exists>text. repos_text (py_repr e) rs = Inr text \<and> text \<noteq> [] \<and>
                        state fl2 ''repos'' = Some (PStr text)))"
    using run_start_tasks_effect [OF assms(1), of e r1 r2] by blast
  from repos assms(3,4) obtain rt where rt: "repos_text (py_repr e) rs = Inr rt"
    "state fl2 ''repos'' = Some (PStr rt)" by auto
  have ui: "state fl2 ''user_info'' = Some (PDict ui)" using user assms(2) by simp
  have eq: "state fl2 = (state fl0)(''user_info'' \<mapsto> PDict ui, ''repos'' \<mapsto> PStr rt)"
  proof
    fix k
    show "state fl2 k = ((state fl0)(''user_info'' \<mapsto> PDict ui, ''repos'' \<mapsto> PStr rt)) k"
      using other ui rt(2) by (cases "k = ''user_info''"; cases "k = ''repos''") simp_all
  qed
  have "dom (state fl2) = dom (state fl0) \<union> {''user_info'', ''repos''}"
    unfolding eq by auto
  moreover have "''username'' \<in> dom (state fl2)"
    using other assms(1) by (auto simp add: dom_def)
  ultimately show ?thesis using run rt(1) eq by auto
qed

theorem joined_state_keys_witness:
  "state \<lparr>state = map_of [(''username'', PStr ''octocat'')], requests = [], gen_log = []\<rparr> ''username''
     = Some (PStr ''octocat'') \<and>
   fst (get_github_user_info example_env ''octocat'' []) =
     Some (user_info_dict [(''login'', PStr ''octocat''), (''name'', PNone),
                           (''followers'', PInt 100), (''public_repos'', PInt 5)]) \<and>
   fst (get_github_repos example_env ''octocat'' []) =
     Some [repo_dict [(''name'', PStr ''Spoon-Knife''), (''description'', PNone),
                      (''fork'', PBool False)]] \<and>
   dom (state (snd (run_start_tasks example_env
      \<lparr>state = map_of [(''username'', PStr ''octocat'')], requests = [], gen_log = []\<rparr>)))
     = {''username''} \<union> {''user_info'', ''repos''}"
proof -
  let ?fl0 = "\<lparr>state = map_of [(''username'', PStr ''octocat'')], requests = [], gen_log = []\<rparr>"
  let ?ui = "user_info_dict [(''login'', PStr ''octocat''), (''name'', PNone),
                           (''followers'', PInt 100), (''public_repos'', PInt 5)]"
  let ?rs = "[repo_dict [(''name'', PStr ''Spoon-Knife''), (''description'', PNone),
                      (''fork'', PBool False)]]"
  have name: "state ?fl0 ''username'' = Some (PStr ''octocat'')" by simp
  have profile: "fst (get_github_user_info example_env ''octocat'' []) = Some ?ui"
    by (simp add: get_github_user_info_def example_env_def example_users_api_def Let_def)
  have repos: "fst (get_github_repos example_env ''octocat'' []) = Some ?rs"
    by (simp add: get_github_repos_def example_env_def example_repos_api_def Let_def)
  have nonempty: "?rs \<noteq> []" by simp
  from joined_state_keys [OF name profile repos nonempty] name profile repos
  show ?thesis by auto
qed

section \<open>A user without repositories\<close>

text \<open>
  Claim C8. When the repository lookup succeeds with an empty list,
  \<^verbatim>\<open>start_repo_info\<close> returns the same error value as for a failed lookup and does not
  write the state; the run returns \<^verbatim>\<open>None\<close> and makes no generation call.
\<close>

theorem empty_repo_list_fails:
  assumes "fst (get_github_repos e u r) = Some []" and "state fl ''username'' = Some (PStr u)"
  shows "fst (start_repo_info e fl) = Inr (PDict [(''error'', PStr ''Failed to fetch repositories data'')]) \<and>
         state (snd (start_repo_info e fl)) = state fl \<and>
         fst (flow_kickoff e [(''username'', PStr u)]) = Inr None \<and>
         gen_log (snd (flow_kickoff e [(''username'', PStr u)])) = []"
proof -
  have "fst (get_github_repos e (py_str (py_repr e) (PStr u)) r) = None \<or>
        fst (get_github_repos e (py_str (py_repr e) (PStr u)) r) = Some []"
    using assms(1) by simp
  from start_repo_info_failed [OF assms(2) this]
  have start: "fst (start_repo_info e fl) = Inr (PDict [(''error'', PStr ''Failed to fetch repositories data'')])
         \<and> state (snd (start_repo_info e fl)) = state fl" .
  have "fst (get_github_user_info e u []) = None \<or> fst (get_github_repos e u r) = None
          \<or> fst (get_github_repos e u r) = Some []"
    using assms(1) by blast
  then have "flow_kickoff e [(''username'', PStr u)] = (Inr None, snd (flow_kickoff e [(''username'', PStr u)]))
         \<and> gen_log (snd (flow_kickoff e [(''username'', PStr u)])) = []"
    by (rule flow_kickoff_not_found)
  then have "fst (flow_kickoff e [(''username'', PStr u)]) = Inr None"
    and "gen_log (snd (flow_kickoff e [(''username'', PStr u)])) = []"
    by (metis fst_conv, simp)
  then show ?thesis using start by simp
qed

theorem empty_repo_list_fails_witness:
  "fst (get_github_repos example_env ''newcomer'' []) = Some [] \<and>
   fst (get_github_user_info example_env ''newcomer'' []) \<noteq> None \<and>
   fst (start_repo_info example_env
          \<lparr>state = [''username'' \<mapsto> PStr ''newcomer''], requests = [], gen_log = []\<rparr>)
     = Inr (PDict [(''error'', PStr ''Failed to fetch repositories data'')]) \<and>
   state (snd (start_repo_info example_env
          \<lparr>state = [''username'' \<mapsto> PStr ''newcomer''], requests = [], gen_log = []\<rparr>)) ''repos'' = None \<and>
   fst (flow_kickoff example_env [(''username'', PStr ''newcomer'')]) = Inr None \<and>
   gen_log (snd (flow_kickoff example_env [(''username'', PStr ''newcomer'')])) = []"
proof -
  let ?fl = "\<lparr>state = [''username'' \<mapsto> PStr ''newcomer''], requests = [], gen_log = []\<rparr>"
  have empty: "fst (get_github_repos example_env ''newcomer'' []) = Some []"
    by (simp add: get_github_repos_def example_env_def example_repos_api_def Let_def)
  have profile: "fst (get_github_user_info example_env ''newcomer'' []) \<noteq> None"
    by (simp add: get_github_user_info_def example_env_def example_users_api_def Let_def)
  have name: "state ?fl ''username'' = Some (PStr ''newcomer'')" by simp
  from empty_repo_list_fails [OF empty name] empty profile
  show ?thesis by simp
qed

section \<open>Sentinels of a repository record\<close>

text \<open>
  Claim C9. In every record of a successful \<^verbatim>\<open>get_github_repos\<close> call, a description
  that is absent or null upstream is \<^verbatim>\<open>"No description provided"\<close> and a language that is
  absent or null upstream is \<^verbatim>\<open>"Not specified"\<close>. The records are in the order of the
  upstream array, one for each of its elements.
\<close>

theorem repo_sentinels:
  assumes "fst (get_github_repos e u reqs) = Some rs" and "i < length rs"
  shows "length rs = length (json_body (repos_api e
            (''https://api.github.com/users/'' @ u @ ''/repos?per_page=100&sort=updated''))) \<and>
         (let upstream = json_body (repos_api e
            (''https://api.github.com/users/'' @ u @ ''/repos?per_page=100&sort=updated'')) ! i
          in (map_of upstream ''description'' = None \<or> map_of upstream ''description'' = Some PNone
                \<longrightarrow> dict_item (rs ! i) ''description'' = Inr (PStr ''No description provided'')) \<and>
             (map_of upstream ''language'' = None \<or> map_of upstream ''language'' = Some PNone
                \<longrightarrow> dict_item (rs ! i) ''language'' = Inr (PStr ''Not specified'')))"
proof -
  let ?body = "json_body (repos_api e
            (''https://api.github.com/users/'' @ u @ ''/repos?per_page=100&sort=updated''))"
  have rs: "rs = map repo_dict ?body" using assms(1) by (rule repos_fetch_Some)
  then have len: "length rs = length ?body" by simp
  then have nth: "rs ! i = repo_dict (?body ! i)" using rs assms(2) by simp
  have "(map_of (?body ! i) ''description'' = None \<or> map_of (?body ! i) ''description'' = Some PNone
           \<longrightarrow> dict_item (repo_dict (?body ! i)) ''description'' = Inr (PStr ''No description provided''))"
    by (auto simp add: repo_dict_def dict_item_def dict_get_def py_or_def)
  moreover have "(map_of (?body ! i) ''language'' = None \<or> map_of (?body ! i) ''language'' = Some PNone
           \<longrightarrow> dict_item (repo_dict (?body ! i)) ''language'' = Inr (PStr ''Not specified''))"
    by (auto simp add: repo_dict_def dict_item_def dict_get_def py_or_def)
  ultimately show ?thesis using len nth by (simp add: Let_def)
qed

text \<open>
  The repository of \<^verbatim>\<open>octocat\<close> has a null description and no language upstream.
\<close>

theorem repo_sentinels_witness:
  "fst (get_github_repos example_env ''octocat'' []) =
     Some [repo_dict [(''name'', PStr ''Spoon-Knife''), (''description'', PNone),
                      (''fork'', PBool False)]] \<and>
   dict_item (repo_dict [(''name'', PStr ''Spoon-Knife''), (''description'', PNone),
                         (''fork'', PBool False)]) ''description''
     = Inr (PStr ''No description provided'') \<and>
   dict_item (repo_dict [(''name'', PStr ''Spoon-Knife''), (''description'', PNone),
                         (''fork'', PBool False)]) ''language''
     = Inr (PStr ''Not specified'')"
proof -
  let ?rs = "[repo_dict [(''name'', PStr ''Spoon-Knife''), (''description'', PNone),
                         (''fork'', PBool False)]]"
  have fetched: "fst (get_github_repos example_env ''octocat'' []) = Some ?rs"
    by (simp add: get_github_repos_def example_env_def example_repos_api_def Let_def)
  have index: "0 < length ?rs" by simp
  show ?thesis
    using fetched repo_sentinels [OF fetched index]
    by (simp add: example_env_def example_repos_api_def Let_def)
qed

end
